theory Spec2Isabelle
  imports Main "HOL-Library.AList"
begin

section \<open>JavaScript values as the test process sees them\<close>

text \<open>
  A locator document reaches the test process as the value that the \<^verbatim>\<open>readYamlFile\<close> task
  returns, and a response body as the value that \<^verbatim>\<open>cy.request\<close> yields: \<^verbatim>\<open>null\<close>, a
  boolean, a number, a string, an array or an object. \<open>Undefined\<close> is what a property read
  yields when nothing is found. \<open>Builtin t\<close> stands for a member that a JavaScript prototype
  supplies (for example \<^verbatim>\<open>Object.prototype.toString\<close>): a function or object, truthy and
  never a string, named here by the text \<open>t\<close> that the engine prints for it. An object is
  the list of its own properties in the order of \<^verbatim>\<open>Object.keys\<close>. Numbers are taken as
  integers: the code only tests them for zero, compares them and prints them.
\<close>

datatype jsval =
    Undefined
  | Null
  | Bool bool
  | Num int
  | Str string
  | Arr "jsval list"
  | Obj "(string \<times> jsval) list"
  | Builtin string

text \<open>The condition of \<^verbatim>\<open>if (v)\<close>, \<^verbatim>\<open>!v\<close> and \<^verbatim>\<open>v || w\<close>.\<close>

fun truthy :: "jsval \<Rightarrow> bool" where
  "truthy Undefined = False"
| "truthy Null = False"
| "truthy (Bool b) = b"
| "truthy (Num n) = (n \<noteq> 0)"
| "truthy (Str s) = (s \<noteq> [])"
| "truthy (Arr xs) = True"
| "truthy (Obj kvs) = True"
| "truthy (Builtin n) = True"

text \<open>\<^verbatim>\<open>a || b\<close>: the left operand when it is truthy, the right one otherwise.\<close>

definition js_or :: "jsval \<Rightarrow> jsval \<Rightarrow> jsval" where
  "js_or a b = (if truthy a then a else b)"

subsection \<open>Errors\<close>

text \<open>\<^verbatim>\<open>ErrorTypes\<close> of the error handler.\<close>

datatype error_type =
    ELEMENT_NOT_FOUND
  | TIMEOUT
  | API_ERROR
  | VALIDATION_ERROR
  | AUTHENTICATION_ERROR
  | NETWORK_ERROR
  | ASSERTION_ERROR
  | UNKNOWN

text \<open>
  What the code throws: \<^verbatim>\<open>new Error(message)\<close>, \<^verbatim>\<open>new TestError(message, type, details)\<close>
  (the time stamp of a \<^verbatim>\<open>TestError\<close> is left out), and the \<^verbatim>\<open>TypeError\<close> of the
  engine when a property of \<^verbatim>\<open>null\<close> or \<^verbatim>\<open>undefined\<close> is read or a value that is not a
  function is called. The last two are the failures of the command \<^verbatim>\<open>cy.task\<close>: the task
  threw the given error, or it returned \<^verbatim>\<open>undefined\<close>.
\<close>

datatype js_error =
    Error string
  | TestError string error_type jsval
  | TypeError
  | TaskFailed js_error
  | TaskReturnedUndefined

text \<open>
  The \<^verbatim>\<open>message\<close> of an error, where the code of the repository sets it (the wording of
  the engine and of the runner is not modelled).
\<close>

fun message :: "js_error \<Rightarrow> string option" where
  "message (Error m) = Some m"
| "message (TestError m t d) = Some m"
| "message TypeError = None"
| "message (TaskFailed e) = None"
| "message TaskReturnedUndefined = None"

text \<open>
  The kind under which \<^verbatim>\<open>handleError\<close> files an error:
  \<^verbatim>\<open>error.type || ErrorTypes.UNKNOWN\<close>. Only a \<^verbatim>\<open>TestError\<close> has a \<^verbatim>\<open>type\<close>.
\<close>

fun error_kind :: "js_error \<Rightarrow> error_type" where
  "error_kind (TestError m t d) = t"
| "error_kind (Error m) = UNKNOWN"
| "error_kind TypeError = UNKNOWN"
| "error_kind (TaskFailed e) = UNKNOWN"
| "error_kind TaskReturnedUndefined = UNKNOWN"

subsection \<open>Strings\<close>

text \<open>\<^verbatim>\<open>s.startsWith(p)\<close>.\<close>

definition startsWith :: "string \<Rightarrow> string \<Rightarrow> bool" where
  "startsWith s p = (take (length p) s = p)"

text \<open>
  \<^verbatim>\<open>s.replace(pat, rep)\<close> for a string pattern: the first occurrence of \<open>pat\<close>, searched
  from the left, is replaced. (The code passes \<^verbatim>\<open>''\<close> as \<open>rep\<close>, so the \<^verbatim>\<open>$\<close> patterns of
  a replacement string play no part.)
\<close>

fun replace :: "string \<Rightarrow> string \<Rightarrow> string \<Rightarrow> string" where
  "replace [] pat rep = (if pat = [] then rep else [])"
| "replace (c # cs) pat rep =
     (if startsWith (c # cs) pat then rep @ drop (length pat) (c # cs)
      else c # replace cs pat rep)"

text \<open>\<^verbatim>\<open>s.includes(t)\<close>: \<open>t\<close> occurs somewhere in \<open>s\<close>.\<close>

fun str_includes :: "string \<Rightarrow> string \<Rightarrow> bool" where
  "str_includes [] t = (t = [])"
| "str_includes (c # cs) t = (startsWith (c # cs) t \<or> str_includes cs t)"

subsection \<open>Numbers as text\<close>

text \<open>The decimal numeral of a number, as a template literal or \<^verbatim>\<open>String(n)\<close> prints it.\<close>

fun show_nat :: "nat \<Rightarrow> string" where
  "show_nat n =
     (if n < 10 then [''0123456789'' ! n]
      else show_nat (n div 10) @ [''0123456789'' ! (n mod 10)])"

definition show_int :: "int \<Rightarrow> string" where
  "show_int i = (if i < 0 then ''-'' @ show_nat (nat (- i)) else show_nat (nat i))"

subsection \<open>Property reads\<close>

text \<open>
  The own properties of a value. An object has its members; an array has \<^verbatim>\<open>length\<close> and
  one property per index, named by the decimal numeral of the index; a string likewise, an
  index giving the one-character string at that place. \<^verbatim>\<open>null\<close>, \<^verbatim>\<open>undefined\<close>, booleans
  and numbers have none.
\<close>

definition index_of_key :: "nat \<Rightarrow> string \<Rightarrow> nat option" where
  "index_of_key n k = (case filter (\<lambda>i. show_nat i = k) [0..<n] of [] \<Rightarrow> None | i # _ \<Rightarrow> Some i)"

fun own :: "jsval \<Rightarrow> string \<Rightarrow> jsval option" where
  "own (Obj kvs) k = map_of kvs k"
| "own (Arr xs) k =
     (if k = ''length'' then Some (Num (int (length xs)))
      else map_option (\<lambda>i. xs ! i) (index_of_key (length xs) k))"
| "own (Str s) k =
     (if k = ''length'' then Some (Num (int (length s)))
      else map_option (\<lambda>i. Str [s ! i]) (index_of_key (length s) k))"
| "own v k = None"

text \<open>
  What the prototype chain of a value supplies under a name is fixed by the JavaScript engine,
  not by this repository, and depends on the sort of the value only: it is a parameter of
  the model. \<open>object_prototype\<close> is the part of it that comes from \<^verbatim>\<open>Object.prototype\<close>:
  its methods, which every sort of value inherits, and for a plain object also
  \<^verbatim>\<open>constructor\<close> and \<^verbatim>\<open>__proto__\<close>.
\<close>

datatype js_class =
    ObjectClass
  | ArrayClass
  | StringClass
  | NumberClass
  | BooleanClass
  | BuiltinClass string

fun class_of :: "jsval \<Rightarrow> js_class option" where
  "class_of Undefined = None"
| "class_of Null = None"
| "class_of (Bool b) = Some BooleanClass"
| "class_of (Num n) = Some NumberClass"
| "class_of (Str s) = Some StringClass"
| "class_of (Arr xs) = Some ArrayClass"
| "class_of (Obj kvs) = Some ObjectClass"
| "class_of (Builtin n) = Some (BuiltinClass n)"

type_synonym protos = "js_class \<Rightarrow> string \<Rightarrow> jsval option"

definition object_prototype :: protos where
  "object_prototype c k =
     (if k \<in> set [''hasOwnProperty'', ''isPrototypeOf'', ''propertyIsEnumerable'',
                   ''toLocaleString'', ''toString'', ''valueOf'', ''__defineGetter__'',
                   ''__defineSetter__'', ''__lookupGetter__'', ''__lookupSetter__'']
      then Some (Builtin (''function '' @ k @ ''() { [native code] }''))
      else if c = ObjectClass \<and> k = ''constructor''
      then Some (Builtin ''function Object() { [native code] }'')
      else if c = ObjectClass \<and> k = ''__proto__''
      then Some (Builtin ''[object Object]'')
      else None)"

text \<open>What \<^verbatim>\<open>v[k]\<close> finds: an own property first, an inherited one otherwise.\<close>

definition lookup :: "protos \<Rightarrow> jsval \<Rightarrow> string \<Rightarrow> jsval option" where
  "lookup pr v k =
     (case own v k of
        Some x \<Rightarrow> Some x
      | None \<Rightarrow> (case class_of v of None \<Rightarrow> None | Some c \<Rightarrow> pr c k))"

text \<open>
  The read \<^verbatim>\<open>v[k]\<close>: \<^verbatim>\<open>undefined\<close> when nothing is found, and a \<^verbatim>\<open>TypeError\<close> when
  \<open>v\<close> is \<^verbatim>\<open>null\<close> or \<^verbatim>\<open>undefined\<close>.
\<close>

definition read_prop :: "protos \<Rightarrow> jsval \<Rightarrow> string \<Rightarrow> jsval" where
  "read_prop pr v k = (case lookup pr v k of None \<Rightarrow> Undefined | Some x \<Rightarrow> x)"

definition get_prop :: "protos \<Rightarrow> jsval \<Rightarrow> string \<Rightarrow> js_error + jsval" where
  "get_prop pr v k = (if v = Undefined \<or> v = Null then Inl TypeError else Inr (read_prop pr v k))"

text \<open>Sequencing of steps that may throw: the first error ends the computation.\<close>

definition and_then :: "'e + 'a \<Rightarrow> ('a \<Rightarrow> 'e + 'b) \<Rightarrow> 'e + 'b" where
  "and_then r f = (case r of Inl e \<Rightarrow> Inl e | Inr x \<Rightarrow> f x)"

subsection \<open>Values as text, strict equality, enumeration\<close>

text \<open>\<^verbatim>\<open>xs.join(sep)\<close> on a list of strings.\<close>

fun join :: "string \<Rightarrow> string list \<Rightarrow> string" where
  "join sep [] = []"
| "join sep [x] = x"
| "join sep (x # y # ys) = x @ sep @ join sep (y # ys)"

text \<open>
  The text of a value inside a template literal. An array prints its elements separated by
  commas, \<^verbatim>\<open>null\<close> and \<^verbatim>\<open>undefined\<close> elements as nothing; an object prints as
  \<^verbatim>\<open>[object Object]\<close>; a built-in is represented by the text that the engine prints for it.
\<close>

fun to_str :: "jsval \<Rightarrow> string" where
  "to_str Undefined = ''undefined''"
| "to_str Null = ''null''"
| "to_str (Bool b) = (if b then ''true'' else ''false'')"
| "to_str (Num n) = show_int n"
| "to_str (Str s) = s"
| "to_str (Arr xs) =
     join '','' (map (\<lambda>x. if x = Undefined \<or> x = Null then [] else to_str x) xs)"
| "to_str (Obj kvs) = ''[object Object]''"
| "to_str (Builtin t) = t"


text \<open>
  The call \<^verbatim>\<open>v.hasOwnProperty(k)\<close>. The method is read from \<open>v\<close> like any other property: on
  \<^verbatim>\<open>null\<close> and \<^verbatim>\<open>undefined\<close> the read is a \<^verbatim>\<open>TypeError\<close>, and so is the call when what
  is read is not the method of \<^verbatim>\<open>Object.prototype\<close> (an own property of that name, with a
  value that is no function, or nothing at all). The method says whether \<open>k\<close> is an own
  property.
\<close>

definition hasOwnProperty_builtin :: jsval where
  "hasOwnProperty_builtin = Builtin ''function hasOwnProperty() { [native code] }''"

definition hasOwnProperty :: "protos \<Rightarrow> jsval \<Rightarrow> string \<Rightarrow> js_error + bool" where
  "hasOwnProperty pr v k =
     and_then (get_prop pr v ''hasOwnProperty'') (\<lambda>method.
       if method = hasOwnProperty_builtin then Inr (own v k \<noteq> None) else Inl TypeError)"

text \<open>
  The own enumerable properties of a value, as \<^verbatim>\<open>Object.entries\<close> and the spread of an
  object literal enumerate them.
\<close>

fun entries :: "jsval \<Rightarrow> (string \<times> jsval) list" where
  "entries (Obj kvs) = kvs"
| "entries (Arr xs) = zip (map show_nat [0..<length xs]) xs"
| "entries (Str s) = zip (map show_nat [0..<length s]) (map (\<lambda>c. Str [c]) s)"
| "entries v = []"

text \<open>\<^verbatim>\<open>{...target, ...source}\<close>: the properties of \<open>source\<close> written over those of \<open>target\<close>.\<close>

definition spread :: "(string \<times> jsval) list \<Rightarrow> jsval \<Rightarrow> (string \<times> jsval) list" where
  "spread target source = fold (\<lambda>(k, v) t. AList.update k v t) (entries source) target"

section \<open>Locator Registry\<close>

subsection \<open>The document store: the task \<^verbatim>\<open>readYamlFile\<close>\<close>

text \<open>
  The task runs in the Node process. Its surroundings are parameters: the directory of the
  configuration file (\<^verbatim>\<open>__dirname\<close>), \<^verbatim>\<open>path.resolve\<close>, \<^verbatim>\<open>fs.existsSync\<close>,
  \<^verbatim>\<open>fs.readFileSync\<close> and \<^verbatim>\<open>yaml.load\<close>, which throws on text that is not YAML and
  returns \<^verbatim>\<open>undefined\<close> on an empty document.
\<close>

record node_env =
  dirname :: string
  path_resolve :: "string \<Rightarrow> string \<Rightarrow> string"
  existsSync :: "string \<Rightarrow> bool"
  readFileSync :: "string \<Rightarrow> string"
  yaml_load :: "string \<Rightarrow> js_error + jsval"

definition readYamlFile :: "node_env \<Rightarrow> string \<Rightarrow> js_error + jsval" where
  "readYamlFile env filePath =
     (let absolutePath = path_resolve env (dirname env) filePath in
      if existsSync env absolutePath then
        (let fileContents = readFileSync env absolutePath in yaml_load env fileContents)
      else Inl (Error (''YAML file not found: '' @ absolutePath)))"

text \<open>
  \<^verbatim>\<open>cy.task\<close> relays the outcome of a task to the test: the command fails with the error
  that the task threw, and the runner also fails the command when the task returned
  \<^verbatim>\<open>undefined\<close>.
\<close>

definition cy_task :: "js_error + jsval \<Rightarrow> js_error + jsval" where
  "cy_task r =
     (case r of
        Inl e \<Rightarrow> Inl (TaskFailed e)
      | Inr v \<Rightarrow> if v = Undefined then Inl TaskReturnedUndefined else Inr v)"

subsection \<open>The cache and the lookups\<close>

text \<open>
  The state of the module: the object \<^verbatim>\<open>locatorCache\<close>, and, to observe the reads of the
  document store, the file paths of the \<^verbatim>\<open>readYamlFile\<close> tasks issued so far.
\<close>

record registry =
  locatorCache :: "(string \<times> jsval) list"
  reads :: "string list"

definition initial_registry :: registry where
  "initial_registry = \<lparr>locatorCache = [], reads = []\<rparr>"

text \<open>
  \<^verbatim>\<open>loadLocators\<close>. The cache test \<^verbatim>\<open>if (locatorCache[pageName])\<close> is a property read like
  any other and asks for a truthy value; the assignment after the task stores the document as
  an own property of the cache.
\<close>

definition loadLocators ::
  "protos \<Rightarrow> node_env \<Rightarrow> string \<Rightarrow> registry \<Rightarrow> (js_error + jsval) \<times> registry" where
  "loadLocators pr env pageName st =
     (let filePath = ''cypress/locators/'' @ pageName @ ''.yaml'' in
      case get_prop pr (Obj (locatorCache st)) pageName of
        Inl e \<Rightarrow> (Inl e, st)
      | Inr cached \<Rightarrow>
          if truthy cached then (Inr cached, st)
          else
            (case cy_task (readYamlFile env filePath) of
               Inl e \<Rightarrow> (Inl e, st\<lparr>reads := reads st @ [filePath]\<rparr>)
             | Inr locators \<Rightarrow>
                 (Inr locators,
                  st\<lparr>locatorCache := AList.update pageName locators (locatorCache st),
                     reads := reads st @ [filePath]\<rparr>)))"

text \<open>
  The function that \<^verbatim>\<open>getLocator\<close> passes to \<^verbatim>\<open>then\<close>, applied to the loaded document;
  \<open>pageLocators\<close> is its constant of that name,
  \<^verbatim>\<open>locators[`${pageName}Page`] || locators[pageName] || locators\<close>.
\<close>

definition pageLocators :: "protos \<Rightarrow> string \<Rightarrow> jsval \<Rightarrow> js_error + jsval" where
  "pageLocators pr pageName locators =
     and_then (get_prop pr locators (pageName @ ''Page'')) (\<lambda>a.
     and_then (if truthy a then Inr a else get_prop pr locators pageName) (\<lambda>ab.
       Inr (if truthy ab then ab else locators)))"

definition getLocator_then :: "protos \<Rightarrow> string \<Rightarrow> string \<Rightarrow> jsval \<Rightarrow> js_error + jsval" where
  "getLocator_then pr pageName elementKey locators =
     and_then (pageLocators pr pageName locators) (\<lambda>pageLocators.
     and_then (get_prop pr pageLocators elementKey) (\<lambda>selector.
       if \<not> truthy selector
       then Inl (Error (''Locator not found: '' @ pageName @ ''.'' @ elementKey))
       else Inr selector))"

definition getLocator ::
  "protos \<Rightarrow> node_env \<Rightarrow> string \<Rightarrow> string \<Rightarrow> registry \<Rightarrow> (js_error + jsval) \<times> registry" where
  "getLocator pr env pageName elementKey st =
     (case loadLocators pr env pageName st of
        (Inl e, st') \<Rightarrow> (Inl e, st')
      | (Inr locators, st') \<Rightarrow> (getLocator_then pr pageName elementKey locators, st'))"


definition getAllLocators ::
  "protos \<Rightarrow> node_env \<Rightarrow> string \<Rightarrow> registry \<Rightarrow> (js_error + jsval) \<times> registry" where
  "getAllLocators pr env pageName st = loadLocators pr env pageName st"

section \<open>The host runner\<close>

text \<open>
  The commands that the code puts on the queue of the runner, in the order of issue; a query
  carries its \<^verbatim>\<open>timeout\<close> option when one is given. \<open>Invoke\<close> is not a command: it marks
  a call of the action that the caller passed to \<^verbatim>\<open>retry\<close>.
\<close>

datatype command =
    CyGet string "int option"
  | CyXpath string "int option"
  | CyContains string "int option"
  | CyClick bool
  | CyWait int
  | CyRequest jsval
  | CyTaskLog string
  | CyDocument
  | Invoke

text \<open>
  The page as the code inspects it: the number of elements that \<^verbatim>\<open>$body.find(selector)\<close>
  matches (jQuery throws on a selector that it cannot parse), the text of the body, and
  whether \<^verbatim>\<open>doc.evaluate(xpath, ...)\<close> has a first node (the browser throws on an expression
  that is not XPath).
\<close>

record page =
  find_length :: "string \<Rightarrow> js_error + nat"
  body_text :: string
  xpath_first :: "string \<Rightarrow> js_error + bool"

section \<open>Selector Resolver\<close>

text \<open>
  \<^verbatim>\<open>resolveSelector\<close> hands the selector to the host runner as one of the queries
  \<^verbatim>\<open>cy.xpath(xpath)\<close>, \<^verbatim>\<open>cy.contains(text)\<close> and \<^verbatim>\<open>cy.get(selector)\<close>, without options.
\<close>

definition resolveSelector :: "string \<Rightarrow> command" where
  "resolveSelector selector =
     (if startsWith selector ''xpath='' then
        (let xpath = replace selector ''xpath='' '''' in CyXpath xpath None)
      else if startsWith selector ''text='' then
        (let text = replace selector ''text='' '''' in CyContains text None)
      else CyGet selector None)"

subsection \<open>\<^verbatim>\<open>elementExists\<close>\<close>

text \<open>
  The function that \<^verbatim>\<open>elementExists\<close> passes to \<^verbatim>\<open>then\<close>, applied to the selector that
  \<^verbatim>\<open>getLocator\<close> found. A selector that is not a string has no \<^verbatim>\<open>startsWith\<close>, and the call
  of it is a \<^verbatim>\<open>TypeError\<close>.
\<close>

definition elementExists_then ::
  "page \<Rightarrow> jsval \<Rightarrow> command list \<Rightarrow> (js_error + bool) \<times> command list" where
  "elementExists_then pg selector log =
     (let log = log @ [CyGet ''body'' None] in
      case selector of
        Str sel \<Rightarrow>
          if startsWith sel ''xpath='' \<or> startsWith sel ''text='' then
            (let log = log @ [CyDocument] in
             if startsWith sel ''xpath='' then
               (let xpath = replace sel ''xpath='' '''' in (xpath_first pg xpath, log))
             else
               (let text = replace sel ''text='' '''' in
                (Inr (str_includes (body_text pg) text), log)))
          else
            (case find_length pg sel of
               Inl e \<Rightarrow> (Inl e, log)
             | Inr n \<Rightarrow> (Inr (n > 0), log))
      | _ \<Rightarrow> (Inl TypeError, log))"

definition elementExists ::
  "protos \<Rightarrow> node_env \<Rightarrow> page \<Rightarrow> string \<Rightarrow> string \<Rightarrow> registry \<times> command list
     \<Rightarrow> (js_error + bool) \<times> registry \<times> command list" where
  "elementExists pr env pg pageName elementKey = (\<lambda>(st, log).
     case getLocator pr env pageName elementKey st of
       (Inl e, st') \<Rightarrow> (Inl e, st', log)
     | (Inr selector, st') \<Rightarrow>
         (case elementExists_then pg selector log of (r, log') \<Rightarrow> (r, st', log')))"

section \<open>API helper\<close>

record response =
  status :: int
  body :: jsval

text \<open>
  The options of a request are an object, given by its properties. \<^verbatim>\<open>cy.request\<close> is a
  parameter: applied to the merged options it acts on the world \<open>'s\<close> (the server) and
  yields a response, or fails.
\<close>

definition defaultOptions :: "(string \<times> jsval) list" where
  "defaultOptions =
     [(''timeout'', Num 30000),
      (''failOnStatusCode'', Bool False),
      (''headers'', Obj [(''Content-Type'', Str ''application/json''),
                         (''Accept'', Str ''application/json'')])]"

definition mergedOptions :: "protos \<Rightarrow> (string \<times> jsval) list \<Rightarrow> (string \<times> jsval) list" where
  "mergedOptions pr options =
     AList.update ''headers''
       (Obj (spread (spread [] (read_prop pr (Obj defaultOptions) ''headers''))
                    (read_prop pr (Obj options) ''headers'')))
       (spread (spread [] (Obj defaultOptions)) (Obj options))"

definition apiRequest ::
  "protos \<Rightarrow> (jsval \<Rightarrow> 's \<Rightarrow> (js_error + response) \<times> 's) \<Rightarrow> (string \<times> jsval) list
     \<Rightarrow> 's \<times> command list \<Rightarrow> (js_error + response) \<times> 's \<times> command list" where
  "apiRequest pr cy_request options = (\<lambda>(s, log).
     case cy_request (Obj (mergedOptions pr options)) s of
       (Inl e, s') \<Rightarrow> (Inl e, s', log @ [CyRequest (Obj (mergedOptions pr options))])
     | (Inr response, s') \<Rightarrow>
         (Inr response, s',
          log @ [CyRequest (Obj (mergedOptions pr options)),
                 CyTaskLog (''API Request: ''
                            @ to_str (js_or (read_prop pr (Obj options) ''method'') (Str ''GET''))
                            @ '' '' @ to_str (read_prop pr (Obj options) ''url'')),
                 CyTaskLog (''Response Status: '' @ show_int (status response))]))"

text \<open>
  \<open>makeRequest\<close> is the inner function of \<^verbatim>\<open>retryRequest\<close>; the first component of its last
  argument is the counter \<^verbatim>\<open>attempts\<close>.
\<close>

function makeRequest ::
  "protos \<Rightarrow> (jsval \<Rightarrow> 's \<Rightarrow> (js_error + response) \<times> 's) \<Rightarrow> (string \<times> jsval) list
     \<Rightarrow> int \<Rightarrow> int \<Rightarrow> int \<times> 's \<times> command list
     \<Rightarrow> (js_error + response) \<times> int \<times> 's \<times> command list" where
  "makeRequest pr cy_request options maxRetries delay (attempts, s, log) =
     (case apiRequest pr cy_request options (s, log) of
        (Inl e, s', log') \<Rightarrow> (Inl e, attempts + 1, s', log')
      | (Inr response, s', log') \<Rightarrow>
          if status response \<ge> 500 \<and> attempts + 1 < maxRetries
          then makeRequest pr cy_request options maxRetries delay
                 (attempts + 1, s', log' @ [CyWait delay])
          else (Inr response, attempts + 1, s', log'))"
  by pat_completeness auto
termination
  by (relation "measure (\<lambda>(pr, cy_request, options, maxRetries, delay, attempts, s, log).
                            nat (maxRetries - attempts))") auto

definition retryRequest ::
  "protos \<Rightarrow> (jsval \<Rightarrow> 's \<Rightarrow> (js_error + response) \<times> 's) \<Rightarrow> (string \<times> jsval) list
     \<Rightarrow> int option \<Rightarrow> int option \<Rightarrow> 's
     \<Rightarrow> (js_error + response) \<times> int \<times> 's \<times> command list" where
  "retryRequest pr cy_request options maxRetries delay s =
     (let maxRetries = (case maxRetries of None \<Rightarrow> 3 | Some m \<Rightarrow> m);
          delay = (case delay of None \<Rightarrow> 1000 | Some d \<Rightarrow> d)
      in makeRequest pr cy_request options maxRetries delay (0, s, []))"

section \<open>Error/Retry Envelope\<close>

subsection \<open>\<^verbatim>\<open>safeClick\<close>\<close>

record click_options =
  timeout :: "int option"
  force :: "bool option"

definition safeClick ::
  "page \<Rightarrow> string \<Rightarrow> click_options \<Rightarrow> command list \<Rightarrow> (js_error + unit) \<times> command list" where
  "safeClick pg selector options log =
     (let timeout = (case timeout options of None \<Rightarrow> 10000 | Some t \<Rightarrow> t);
          force = (case force options of None \<Rightarrow> False | Some f \<Rightarrow> f);
          log = log @ [CyGet ''body'' None]
      in case find_length pg selector of
           Inl e \<Rightarrow> (Inl e, log)
         | Inr n \<Rightarrow>
             if n > 0 then (Inr (), log @ [CyGet selector (Some timeout), CyClick force])
             else (Inl (TestError (''Element not found: '' @ selector) ELEMENT_NOT_FOUND
                          (Obj [(''selector'', Str selector)])),
                   log))"

subsection \<open>\<^verbatim>\<open>validateApiResponse\<close>\<close>





subsection \<open>\<^verbatim>\<open>retry\<close>\<close>

text \<open>
  The action \<open>fn\<close> acts on some world \<open>'s\<close> and returns a promise, fulfilled (\<open>Inr\<close>) or
  rejected (\<open>Inl\<close>). \<open>attempt\<close> is the inner function of \<^verbatim>\<open>retry\<close>; its last argument is
  the world and the commands issued so far.
\<close>

function attempt ::
  "('s \<Rightarrow> (js_error + 'a) \<times> 's) \<Rightarrow> int \<Rightarrow> int \<Rightarrow> 's \<times> command list
     \<Rightarrow> (js_error + 'a) \<times> 's \<times> command list" where
  "attempt fn delay retriesLeft (s, log) =
     (case fn s of
        (Inr result, s') \<Rightarrow> (Inr result, s', log @ [Invoke])
      | (Inl error, s') \<Rightarrow>
          if retriesLeft > 0
          then attempt fn delay (retriesLeft - 1) (s', log @ [Invoke, CyWait delay])
          else (Inl error, s', log @ [Invoke]))"
  by pat_completeness auto
termination
  by (relation "measure (\<lambda>(fn, delay, retriesLeft, s). nat retriesLeft)") auto

definition retry ::
  "('s \<Rightarrow> (js_error + 'a) \<times> 's) \<Rightarrow> int option \<Rightarrow> int option \<Rightarrow> 's
     \<Rightarrow> (js_error + 'a) \<times> 's \<times> command list" where
  "retry fn maxRetries delay s =
     (let maxRetries = (case maxRetries of None \<Rightarrow> 3 | Some m \<Rightarrow> m);
          delay = (case delay of None \<Rightarrow> 1000 | Some d \<Rightarrow> d)
      in attempt fn delay maxRetries (s, []))"

section \<open>Notions of the specification and examples\<close>

subsection \<open>The namespaces of the specification\<close>

text \<open>
  The three places where the specification looks for an element key, in its order: the value
  under \<^verbatim>\<open><pageName>Page\<close>, the value under \<^verbatim>\<open><pageName>\<close>, and the document itself.
  \<open>selected_namespace\<close> is the first of them that is truthy (the document when the first
  two are not).
\<close>

definition namespaces :: "protos \<Rightarrow> string \<Rightarrow> jsval \<Rightarrow> jsval list" where
  "namespaces pr pageName locators =
     [read_prop pr locators (pageName @ ''Page''), read_prop pr locators pageName, locators]"

definition selected_namespace :: "protos \<Rightarrow> string \<Rightarrow> jsval \<Rightarrow> jsval" where
  "selected_namespace pr pageName locators =
     (case find truthy (namespaces pr pageName locators) of Some ns \<Rightarrow> ns | None \<Rightarrow> locators)"

subsection \<open>Example documents\<close>

text \<open>
  A document store with two files: \<^verbatim>\<open>login.yaml\<close> nests its keys under \<^verbatim>\<open>loginPage\<close> and
  under \<^verbatim>\<open>login\<close> and has one key at the root; \<^verbatim>\<open>home.yaml\<close> is flat. (For brevity the
  text of a file is its path, and the parser maps it to the document.)
\<close>

definition login_document :: jsval where
  "login_document =
     Obj [(''loginPage'', Obj [(''usernameInput'', Str ''#username''), (''url'', Str '''')]),
          (''login'', Obj [(''passwordInput'', Str ''#password'')]),
          (''submitBtn'', Str ''xpath=//button[@type=\"submit\"]'')]"

definition flat_document :: jsval where
  "flat_document =
     Obj [(''searchBox'', Str ''#search''), (''banner'', Str ''''),
          (''helpLink'', Str ''text=Help'')]"

definition example_env :: node_env where
  "example_env =
     \<lparr>dirname = ''/repo'',
      path_resolve = (\<lambda>dir file. dir @ ''/'' @ file),
      existsSync = (\<lambda>path. path \<in> set [''/repo/cypress/locators/login.yaml'',
                                         ''/repo/cypress/locators/home.yaml'']),
      readFileSync = (\<lambda>path. path),
      yaml_load = (\<lambda>text. if text = ''/repo/cypress/locators/login.yaml''
                           then Inr login_document else Inr flat_document)\<rparr>"

subsection \<open>Notions for stating the cache properties\<close>

text \<open>
  The file path that \<^verbatim>\<open>loadLocators\<close> builds for a page, and the condition of its cache
  test \<^verbatim>\<open>if (locatorCache[pageName])\<close>.
\<close>

definition locator_file :: "string \<Rightarrow> string" where
  "locator_file pageName = ''cypress/locators/'' @ pageName @ ''.yaml''"

definition cached :: "protos \<Rightarrow> registry \<Rightarrow> string \<Rightarrow> bool" where
  "cached pr st pageName = truthy (read_prop pr (Obj (locatorCache st)) pageName)"

subsection \<open>Notions for stating the retry properties\<close>

text \<open>
  The world after \<open>i\<close> calls of an action and the outcome of the call that follows;
  the commands of a run of \<^verbatim>\<open>retry\<close> with \<open>k\<close> waits; and an action that fails on its
  first \<open>k\<close> calls and succeeds from then on (its world is the number of calls so far).
\<close>

definition world_after :: "('s \<Rightarrow> (js_error + 'a) \<times> 's) \<Rightarrow> nat \<Rightarrow> 's \<Rightarrow> 's" where
  "world_after fn i s = ((\<lambda>w. snd (fn w)) ^^ i) s"

definition outcome :: "('s \<Rightarrow> (js_error + 'a) \<times> 's) \<Rightarrow> nat \<Rightarrow> 's \<Rightarrow> js_error + 'a" where
  "outcome fn i s = fst (fn (world_after fn i s))"

definition retry_log :: "nat \<Rightarrow> int \<Rightarrow> command list" where
  "retry_log k delay = concat (replicate k [Invoke, CyWait delay]) @ [Invoke]"

definition flaky :: "nat \<Rightarrow> 'a \<Rightarrow> nat \<Rightarrow> (js_error + 'a) \<times> nat" where
  "flaky k result calls =
     (if calls < k then Inl (Error (''failure '' @ show_nat (Suc calls))) else Inr result, Suc calls)"

text \<open>
  For \<^verbatim>\<open>retryRequest\<close>: the number of requests among the commands issued; a
  \<^verbatim>\<open>cy.request\<close> that yields a response on every call (as it does, whatever the status,
  while \<^verbatim>\<open>failOnStatusCode\<close> is false and the server can be reached); a server that answers
  503 for ever, and one that answers 500 to its first \<open>k\<close> requests and 200 afterwards.
\<close>

definition requests :: "command list \<Rightarrow> nat" where
  "requests log = length (filter (\<lambda>c. case c of CyRequest opts \<Rightarrow> True | _ \<Rightarrow> False) log)"

definition always_answers :: "(jsval \<Rightarrow> 's \<Rightarrow> (js_error + response) \<times> 's) \<Rightarrow> bool" where
  "always_answers cy_request = (\<forall>opts s. \<not> isl (fst (cy_request opts s)))"

definition server_down :: "jsval \<Rightarrow> nat \<Rightarrow> (js_error + response) \<times> nat" where
  "server_down opts n = (Inr \<lparr>status = 503, body = Str ''Service Unavailable''\<rparr>, Suc n)"

definition server_recovers :: "nat \<Rightarrow> jsval \<Rightarrow> nat \<Rightarrow> (js_error + response) \<times> nat" where
  "server_recovers k opts n =
     (if n < k then Inr \<lparr>status = 500, body = Null\<rparr>
      else Inr \<lparr>status = 200, body = Obj [(''id'', Num 1)]\<rparr>, Suc n)"

subsection \<open>The violations of the specification\<close>







subsection \<open>An example page\<close>

text \<open>
  A page with one element \<^verbatim>\<open>#submit\<close>, whose body text is given; jQuery rejects selectors
  that begin with \<^verbatim>\<open>text=\<close> or \<^verbatim>\<open>xpath=\<close>, which are not CSS.
\<close>

definition order_page :: page where
  "order_page =
     \<lparr>find_length = (\<lambda>selector.
        if startsWith selector ''text='' \<or> startsWith selector ''xpath=''
        then Inl (Error (''Syntax error, unrecognized expression: '' @ selector))
        else if selector = ''#submit'' then Inr 1 else Inr 0),
      body_text = ''Your order Submit Help'',
      xpath_first = (\<lambda>xpath. Inr (xpath = ''//button''))\<rparr>"

section \<open>Properties\<close>

subsection \<open>The classification of selectors\<close>

lemma replace_prefix: "startsWith s pat \<Longrightarrow> replace s pat rep = rep @ drop (length pat) s"
  by (cases s) (auto simp: startsWith_def)

text \<open>
  Claim C4. The classification of \<^verbatim>\<open>resolveSelector\<close> is a total function on strings and
  has no failing branch: a selector \<^verbatim>\<open>xpath=\<close>\<open>p\<close> becomes the XPath query \<open>p\<close>, a selector
  \<^verbatim>\<open>text=\<close>\<open>p\<close> the text query \<open>p\<close>, and every selector with neither prefix the CSS query
  of the whole string; the three examples of the specification come out as stated.
\<close>

theorem resolveSelector_classify:
  "resolveSelector (''xpath='' @ p) = CyXpath p None
   \<and> resolveSelector (''text='' @ p) = CyContains p None
   \<and> (\<not> startsWith s ''xpath='' \<and> \<not> startsWith s ''text='' \<longrightarrow> resolveSelector s = CyGet s None)
   \<and> resolveSelector s =
         (if startsWith s ''xpath='' then CyXpath (drop (length ''xpath='') s) None
          else if startsWith s ''text='' then CyContains (drop (length ''text='') s) None
          else CyGet s None)
   \<and> resolveSelector ''xpath=//div[@id=\"x\"]'' = CyXpath ''//div[@id=\"x\"]'' None
   \<and> resolveSelector ''text=Submit'' = CyContains ''Submit'' None
   \<and> resolveSelector ''.btn-primary'' = CyGet ''.btn-primary'' None"
proof -
  have x: "resolveSelector (''xpath='' @ p) = CyXpath p None" for p
    by (simp add: resolveSelector_def startsWith_def)
  have t: "resolveSelector (''text='' @ p) = CyContains p None" for p
    by (simp add: resolveSelector_def startsWith_def)
  have c: "\<not> startsWith s ''xpath='' \<and> \<not> startsWith s ''text='' \<longrightarrow> resolveSelector s = CyGet s None"
    by (simp add: resolveSelector_def)
  have tot: "resolveSelector s =
         (if startsWith s ''xpath='' then CyXpath (drop (length ''xpath='') s) None
          else if startsWith s ''text='' then CyContains (drop (length ''text='') s) None
          else CyGet s None)"
    by (simp add: resolveSelector_def replace_prefix del: length_Cons list.size)
  from x t c tot x [of "''//div[@id=\"x\"]''"] t [of "''Submit''"] show ?thesis
    by (simp add: resolveSelector_def startsWith_def)
qed

theorem resolveSelector_classify_witness:
  "\<not> startsWith ''#login .btn'' ''xpath='' \<and> \<not> startsWith ''#login .btn'' ''text=''
   \<and> resolveSelector ''#login .btn'' = CyGet ''#login .btn'' None
   \<and> resolveSelector ''xpath=//a'' = CyXpath ''//a'' None
   \<and> resolveSelector ''text=Log in'' = CyContains ''Log in'' None"
  using resolveSelector_classify [of "''//a''" "''#login .btn''"]
    resolveSelector_classify [of "''Log in''" "''#login .btn''"]
  by (simp add: startsWith_def)

subsection \<open>The namespace of a lookup\<close>

lemma truthy_defined: "truthy v \<Longrightarrow> v \<noteq> Undefined \<and> v \<noteq> Null"
  by (cases v) auto

lemma get_prop_defined: "v \<noteq> Undefined \<Longrightarrow> v \<noteq> Null \<Longrightarrow> get_prop pr v k = Inr (read_prop pr v k)"
  by (simp add: get_prop_def)

lemma selected_namespace_defined:
  "locators \<noteq> Undefined \<Longrightarrow> locators \<noteq> Null \<Longrightarrow>
   selected_namespace pr p locators \<noteq> Undefined \<and> selected_namespace pr p locators \<noteq> Null"
  by (auto simp: selected_namespace_def namespaces_def dest: truthy_defined)

lemma pageLocators_selected:
  "locators \<noteq> Undefined \<Longrightarrow> locators \<noteq> Null \<Longrightarrow>
   pageLocators pr p locators = Inr (selected_namespace pr p locators)"
  by (auto simp: pageLocators_def and_then_def get_prop_def selected_namespace_def namespaces_def)

lemma getLocator_then_selected:
  assumes "locators \<noteq> Undefined" "locators \<noteq> Null"
  shows "getLocator_then pr p k locators =
     (if truthy (read_prop pr (selected_namespace pr p locators) k)
      then Inr (read_prop pr (selected_namespace pr p locators) k)
      else Inl (Error (''Locator not found: '' @ p @ ''.'' @ k)))"
  using selected_namespace_defined [OF assms, of pr p]
  by (simp add: getLocator_then_def pageLocators_selected [OF assms] and_then_def get_prop_defined)

lemma getLocator_loaded:
  "loadLocators pr env p st = (Inr doc, st') \<Longrightarrow>
   getLocator pr env p k st = (getLocator_then pr p k doc, st')"
  by (simp add: getLocator_def)

lemma read_prop_own: "own v k = Some x \<Longrightarrow> read_prop pr v k = x"
  by (simp add: read_prop_def lookup_def)

lemma read_prop_absent: "lookup pr v k = None \<Longrightarrow> read_prop pr v k = Undefined"
  by (simp add: read_prop_def)

text \<open>
  Claim C2, as the code has it. \<^verbatim>\<open>getLocator\<close> looks the element key up in one namespace
  only, the first truthy one of \<^verbatim>\<open>locators[<pageName>Page]\<close>, \<^verbatim>\<open>locators[<pageName>]\<close> and
  the document itself. It returns the value found there when that value is truthy, and fails
  with \<^verbatim>\<open>Locator not found: <pageName>.<elementKey>\<close> otherwise, whatever the other two
  namespaces hold. In particular, when the document has neither \<^verbatim>\<open><pageName>Page\<close> nor
  \<^verbatim>\<open><pageName>\<close> and holds the element key at its root with a truthy selector, the lookup
  succeeds with that selector.
\<close>

theorem getLocator_selected_namespace:
  assumes "loadLocators pr env p st = (Inr doc, st')" and "doc \<noteq> Undefined" and "doc \<noteq> Null"
  shows "pageLocators pr p doc = Inr (selected_namespace pr p doc)
    \<and> getLocator pr env p k st =
        (if truthy (read_prop pr (selected_namespace pr p doc) k)
         then Inr (read_prop pr (selected_namespace pr p doc) k)
         else Inl (Error (''Locator not found: '' @ p @ ''.'' @ k)), st')
    \<and> (lookup pr doc (p @ ''Page'') = None \<and> lookup pr doc p = None \<and> own doc k = Some v \<and> truthy v
        \<longrightarrow> getLocator pr env p k st = (Inr v, st'))"
proof -
  have a: "pageLocators pr p doc = Inr (selected_namespace pr p doc)"
    using assms(2,3) by (rule pageLocators_selected)
  have b: "getLocator pr env p k st =
        (if truthy (read_prop pr (selected_namespace pr p doc) k)
         then Inr (read_prop pr (selected_namespace pr p doc) k)
         else Inl (Error (''Locator not found: '' @ p @ ''.'' @ k)), st')"
    by (simp add: getLocator_loaded [OF assms(1)] getLocator_then_selected [OF assms(2,3)])
  have c: "getLocator pr env p k st = (Inr v, st')"
    if "lookup pr doc (p @ ''Page'') = None" "lookup pr doc p = None" "own doc k = Some v" "truthy v"
  proof -
    have "selected_namespace pr p doc = doc"
      using that(1,2) by (simp add: selected_namespace_def namespaces_def read_prop_absent split: option.splits) 
    then show ?thesis using b that(3,4) by (simp add: read_prop_own)
  qed
  from a b c show ?thesis by blast
qed

theorem getLocator_selected_namespace_witness:
  "loadLocators object_prototype example_env ''home'' initial_registry =
     (Inr flat_document,
      \<lparr>locatorCache = [(''home'', flat_document)], reads = [''cypress/locators/home.yaml'']\<rparr>)
   \<and> flat_document \<noteq> Undefined \<and> flat_document \<noteq> Null
   \<and> lookup object_prototype flat_document (''home'' @ ''Page'') = None
   \<and> lookup object_prototype flat_document ''home'' = None
   \<and> own flat_document ''searchBox'' = Some (Str ''#search'') \<and> truthy (Str ''#search'')
   \<and> getLocator object_prototype example_env ''home'' ''searchBox'' initial_registry =
     (Inr (Str ''#search''),
      \<lparr>locatorCache = [(''home'', flat_document)], reads = [''cypress/locators/home.yaml'']\<rparr>)"
proof -
  let ?st = "\<lparr>locatorCache = [(''home'', flat_document)], reads = [''cypress/locators/home.yaml'']\<rparr>"
  have l: "loadLocators object_prototype example_env ''home'' initial_registry = (Inr flat_document, ?st)"
    by code_simp
  have d: "flat_document \<noteq> Undefined" "flat_document \<noteq> Null"
    by (simp_all add: flat_document_def)
  have h: "lookup object_prototype flat_document (''home'' @ ''Page'') = None
      \<and> lookup object_prototype flat_document ''home'' = None
      \<and> own flat_document ''searchBox'' = Some (Str ''#search'') \<and> truthy (Str ''#search'')"
    by code_simp
  from getLocator_selected_namespace [OF l d, of "''searchBox''" "Str ''#search''"] h
  have "getLocator object_prototype example_env ''home'' ''searchBox'' initial_registry =
     (Inr (Str ''#search''), ?st)"
    by blast
  with l d h show ?thesis by blast
qed

text \<open>
  The claim as the specification words it (a key found in any of the three namespaces is
  resolved) fails: in the login document the key \<^verbatim>\<open>passwordInput\<close> is under \<^verbatim>\<open>login\<close> and
  the key \<^verbatim>\<open>submitBtn\<close> at the root, but \<^verbatim>\<open>loginPage\<close> is selected and has neither.
\<close>

theorem getLocator_no_fallback_counterexample:
  "own (read_prop object_prototype login_document ''login'') ''passwordInput'' = Some (Str ''#password'')
   \<and> own login_document ''submitBtn'' = Some (Str ''xpath=//button[@type=\"submit\"]'')
   \<and> fst (getLocator object_prototype example_env ''login'' ''passwordInput'' initial_registry)
       = Inl (Error ''Locator not found: login.passwordInput'')
   \<and> fst (getLocator object_prototype example_env ''login'' ''submitBtn'' initial_registry)
       = Inl (Error ''Locator not found: login.submitBtn'')"
  by code_simp

lemma pageLocators_Inr_defined:
  "pageLocators pr p doc = Inr ns \<Longrightarrow> doc \<noteq> Undefined \<and> doc \<noteq> Null"
  by (auto simp: pageLocators_def and_then_def get_prop_def split: if_splits)

lemma pageLocators_Inr_selected:
  assumes "pageLocators pr p doc = Inr ns"
  shows "ns = selected_namespace pr p doc"
  using pageLocators_Inr_defined [OF assms] assms
  by (simp add: pageLocators_selected)

text \<open>
  Claim C9. When the namespace that \<^verbatim>\<open>getLocator\<close> selects has the element key as an own
  property with a falsy value (the empty string, for instance), the lookup fails with
  \<^verbatim>\<open>Locator not found: <pageName>.<elementKey>\<close>, the very error of a key that the
  namespace does not have: the test is on the truthiness of the value read, so the error is
  raised exactly when that value is falsy.
\<close>

theorem getLocator_falsy_selector:
  assumes "loadLocators pr env p st = (Inr doc, st')" and "pageLocators pr p doc = Inr ns"
  shows "(own ns k = Some v \<and> \<not> truthy v \<longrightarrow>
            getLocator pr env p k st = (Inl (Error (''Locator not found: '' @ p @ ''.'' @ k)), st'))
       \<and> (lookup pr ns k = None \<longrightarrow>
            getLocator pr env p k st = (Inl (Error (''Locator not found: '' @ p @ ''.'' @ k)), st'))
       \<and> (getLocator pr env p k st = (Inl (Error (''Locator not found: '' @ p @ ''.'' @ k)), st')
            \<longleftrightarrow> \<not> truthy (read_prop pr ns k))"
proof -
  note d = pageLocators_Inr_defined [OF assms(2)]
  have ns: "selected_namespace pr p doc = ns"
    using pageLocators_Inr_selected [OF assms(2)] by simp
  have g: "getLocator pr env p k st =
        (if truthy (read_prop pr ns k) then Inr (read_prop pr ns k)
         else Inl (Error (''Locator not found: '' @ p @ ''.'' @ k)), st')"
    using d by (simp add: getLocator_loaded [OF assms(1)] getLocator_then_selected ns)
  show ?thesis
    by (auto simp: g read_prop_own read_prop_absent)
qed

theorem getLocator_falsy_selector_witness:
  "loadLocators object_prototype example_env ''home'' initial_registry =
     (Inr flat_document,
      \<lparr>locatorCache = [(''home'', flat_document)], reads = [''cypress/locators/home.yaml'']\<rparr>)
   \<and> pageLocators object_prototype ''home'' flat_document = Inr flat_document
   \<and> own flat_document ''banner'' = Some (Str '''') \<and> \<not> truthy (Str '''')
   \<and> lookup object_prototype flat_document ''footer'' = None
   \<and> getLocator object_prototype example_env ''home'' ''banner'' initial_registry =
     (Inl (Error ''Locator not found: home.banner''),
      \<lparr>locatorCache = [(''home'', flat_document)], reads = [''cypress/locators/home.yaml'']\<rparr>)
   \<and> getLocator object_prototype example_env ''home'' ''footer'' initial_registry =
     (Inl (Error ''Locator not found: home.footer''),
      \<lparr>locatorCache = [(''home'', flat_document)], reads = [''cypress/locators/home.yaml'']\<rparr>)"
proof -
  let ?st = "\<lparr>locatorCache = [(''home'', flat_document)], reads = [''cypress/locators/home.yaml'']\<rparr>"
  have l: "loadLocators object_prototype example_env ''home'' initial_registry = (Inr flat_document, ?st)"
    by code_simp
  have n: "pageLocators object_prototype ''home'' flat_document = Inr flat_document"
    by code_simp
  have h: "own flat_document ''banner'' = Some (Str '''') \<and> \<not> truthy (Str '''')"
    by code_simp
  have a: "lookup object_prototype flat_document ''footer'' = None"
    by code_simp
  from getLocator_falsy_selector [OF l n, of "''banner''" "Str ''''"] h
  have 1: "getLocator object_prototype example_env ''home'' ''banner'' initial_registry =
     (Inl (Error ''Locator not found: home.banner''), ?st)"
    by simp
  from getLocator_falsy_selector [OF l n, of "''footer''"] a
  have 2: "getLocator object_prototype example_env ''home'' ''footer'' initial_registry =
     (Inl (Error ''Locator not found: home.footer''), ?st)"
    by simp
  from l n h a 1 2 show ?thesis by blast
qed

lemma selected_namespace_in: "selected_namespace pr p doc \<in> set (namespaces pr p doc)"
  by (auto simp: selected_namespace_def namespaces_def)

text \<open>
  Claim C6, as the code has it. When none of the three namespaces of a loaded document has
  the element key, \<^verbatim>\<open>getLocator\<close> fails with a plain \<^verbatim>\<open>Error\<close> whose message is exactly
  \<^verbatim>\<open>Locator not found: <pageName>.<elementKey>\<close>. The error carries no \<^verbatim>\<open>type\<close>, so
  \<^verbatim>\<open>handleError\<close> files it under \<^verbatim>\<open>UNKNOWN\<close>.
\<close>

theorem getLocator_not_found_error:
  assumes "loadLocators pr env p st = (Inr doc, st')" and "doc \<noteq> Undefined" and "doc \<noteq> Null"
    and "\<forall>ns \<in> set (namespaces pr p doc). lookup pr ns k = None"
  shows "getLocator pr env p k st = (Inl (Error (''Locator not found: '' @ p @ ''.'' @ k)), st')
     \<and> message (Error (''Locator not found: '' @ p @ ''.'' @ k)) = Some (''Locator not found: '' @ p @ ''.'' @ k)
     \<and> error_kind (Error (''Locator not found: '' @ p @ ''.'' @ k)) = UNKNOWN"
proof -
  have "lookup pr (selected_namespace pr p doc) k = None"
    using assms(4) selected_namespace_in by blast
  then have "read_prop pr (selected_namespace pr p doc) k = Undefined"
    by (rule read_prop_absent)
  then show ?thesis
    by (simp add: getLocator_loaded [OF assms(1)] getLocator_then_selected [OF assms(2,3)])
qed

theorem getLocator_not_found_error_witness:
  "loadLocators object_prototype example_env ''login'' initial_registry =
     (Inr login_document,
      \<lparr>locatorCache = [(''login'', login_document)], reads = [''cypress/locators/login.yaml'']\<rparr>)
   \<and> login_document \<noteq> Undefined \<and> login_document \<noteq> Null
   \<and> list_all (\<lambda>ns. lookup object_prototype ns ''missingKey'' = None)
         (namespaces object_prototype ''login'' login_document)
   \<and> getLocator object_prototype example_env ''login'' ''missingKey'' initial_registry =
     (Inl (Error ''Locator not found: login.missingKey''),
      \<lparr>locatorCache = [(''login'', login_document)], reads = [''cypress/locators/login.yaml'']\<rparr>)"
proof -
  let ?st = "\<lparr>locatorCache = [(''login'', login_document)], reads = [''cypress/locators/login.yaml'']\<rparr>"
  have l: "loadLocators object_prototype example_env ''login'' initial_registry = (Inr login_document, ?st)"
    by code_simp
  have d: "login_document \<noteq> Undefined" "login_document \<noteq> Null"
    by (simp_all add: login_document_def)
  have a: "\<forall>ns \<in> set (namespaces object_prototype ''login'' login_document).
         lookup object_prototype ns ''missingKey'' = None"
    by code_simp
  from getLocator_not_found_error [OF l d a]
  have "getLocator object_prototype example_env ''login'' ''missingKey'' initial_registry =
     (Inl (Error ''Locator not found: login.missingKey''), ?st)"
    by simp
  with l d a show ?thesis by (simp add: list_all_iff)
qed

text \<open>
  The claim as the specification words it asks for an error of the kind
  \<^verbatim>\<open>ELEMENT_NOT_FOUND\<close>; the error raised for \<^verbatim>\<open>('login', 'missingKey')\<close> has the message
  asked for but not that kind.
\<close>

theorem getLocator_not_found_kind_counterexample:
  "fst (getLocator object_prototype example_env ''login'' ''missingKey'' initial_registry)
     = Inl (Error ''Locator not found: login.missingKey'')
   \<and> error_kind (Error ''Locator not found: login.missingKey'') \<noteq> ELEMENT_NOT_FOUND"
  by code_simp

subsection \<open>The cache and the document store\<close>

lemma get_prop_cache: "get_prop pr (Obj c) p = Inr (read_prop pr (Obj c) p)"
  by (simp add: get_prop_def)


lemma loadLocators_miss:
  "\<not> cached pr st p \<Longrightarrow>
   loadLocators pr env p st =
     (case cy_task (readYamlFile env (locator_file p)) of
        Inl e \<Rightarrow> (Inl e, st\<lparr>reads := reads st @ [locator_file p]\<rparr>)
      | Inr locators \<Rightarrow>
          (Inr locators,
           st\<lparr>locatorCache := AList.update p locators (locatorCache st),
              reads := reads st @ [locator_file p]\<rparr>))"
  unfolding loadLocators_def locator_file_def Let_def
  by (simp add: cached_def get_prop_cache)









text \<open>
  Claim C7. When \<^verbatim>\<open>loadLocators\<close> consults the document store (nothing truthy is cached
  for the page) and the file does not exist at the path that \<^verbatim>\<open>path.resolve\<close> gives, the
  load fails with the task's error \<^verbatim>\<open>YAML file not found: <absolute path>\<close>; when the
  file exists and parses to a document, the load returns that document (and caches it).
\<close>

theorem loadLocators_missing_file:
  assumes "\<not> cached pr st p"
  shows "(\<not> existsSync env (path_resolve env (dirname env) (locator_file p)) \<longrightarrow>
           loadLocators pr env p st =
             (Inl (TaskFailed (Error (''YAML file not found: ''
                                        @ path_resolve env (dirname env) (locator_file p)))),
              st\<lparr>reads := reads st @ [locator_file p]\<rparr>))
       \<and> (existsSync env (path_resolve env (dirname env) (locator_file p))
           \<and> yaml_load env (readFileSync env (path_resolve env (dirname env) (locator_file p))) = Inr doc
           \<and> doc \<noteq> Undefined \<longrightarrow>
           loadLocators pr env p st =
             (Inr doc,
              st\<lparr>locatorCache := AList.update p doc (locatorCache st),
                 reads := reads st @ [locator_file p]\<rparr>))"
  by (simp add: loadLocators_miss [OF assms] readYamlFile_def cy_task_def)

theorem loadLocators_missing_file_witness:
  "\<not> cached object_prototype initial_registry ''cart''
   \<and> \<not> existsSync example_env (path_resolve example_env (dirname example_env) (locator_file ''cart''))
   \<and> loadLocators object_prototype example_env ''cart'' initial_registry =
       (Inl (TaskFailed (Error ''YAML file not found: /repo/cypress/locators/cart.yaml'')),
        \<lparr>locatorCache = [], reads = [''cypress/locators/cart.yaml'']\<rparr>)
   \<and> \<not> cached object_prototype initial_registry ''home''
   \<and> existsSync example_env (path_resolve example_env (dirname example_env) (locator_file ''home''))
   \<and> yaml_load example_env
        (readFileSync example_env (path_resolve example_env (dirname example_env) (locator_file ''home'')))
       = Inr flat_document
   \<and> flat_document \<noteq> Undefined
   \<and> loadLocators object_prototype example_env ''home'' initial_registry =
       (Inr flat_document,
        \<lparr>locatorCache = [(''home'', flat_document)], reads = [''cypress/locators/home.yaml'']\<rparr>)"
proof -
  have m1: "\<not> cached object_prototype initial_registry ''cart''"
    by code_simp
  have n1: "\<not> existsSync example_env (path_resolve example_env (dirname example_env) (locator_file ''cart''))"
    by code_simp
  have m2: "\<not> cached object_prototype initial_registry ''home''"
    by code_simp
  have e2: "existsSync example_env (path_resolve example_env (dirname example_env) (locator_file ''home''))"
    by code_simp
  have y2: "yaml_load example_env
        (readFileSync example_env (path_resolve example_env (dirname example_env) (locator_file ''home'')))
       = Inr flat_document"
    by code_simp
  have d2: "flat_document \<noteq> Undefined"
    by (simp add: flat_document_def)
  from loadLocators_missing_file [OF m1, of example_env] n1
  have 1: "loadLocators object_prototype example_env ''cart'' initial_registry =
       (Inl (TaskFailed (Error ''YAML file not found: /repo/cypress/locators/cart.yaml'')),
        \<lparr>locatorCache = [], reads = [''cypress/locators/cart.yaml'']\<rparr>)"
    by (simp add: locator_file_def example_env_def initial_registry_def)
  from loadLocators_missing_file [OF m2, of example_env flat_document] e2 y2 d2
  have 2: "loadLocators object_prototype example_env ''home'' initial_registry =
       (Inr flat_document,
        \<lparr>locatorCache = [(''home'', flat_document)], reads = [''cypress/locators/home.yaml'']\<rparr>)"
    by (simp add: locator_file_def initial_registry_def)
  from m1 n1 1 m2 e2 y2 d2 2 show ?thesis by blast
qed

subsection \<open>Bounded retry of an action\<close>

declare attempt.simps [simp del]

lemma world_after_Suc: "world_after fn (Suc i) s = world_after fn i (snd (fn s))"
  by (simp add: world_after_def funpow_Suc_right del: funpow.simps)

lemma world_after_step: "snd (fn (world_after fn i s)) = world_after fn (Suc i) s"
  by (simp add: world_after_def)

lemma outcome_Suc: "outcome fn (Suc i) s = outcome fn i (snd (fn s))"
  by (simp add: outcome_def world_after_Suc)

lemma attempt_failures:
  "\<forall>i<k. isl (outcome fn i s) \<Longrightarrow> int k \<le> m \<Longrightarrow>
   attempt fn d m (s, log) =
     attempt fn d (m - int k) (world_after fn k s, log @ concat (replicate k [Invoke, CyWait d]))"
proof (induction k arbitrary: s log m)
  case 0
  then show ?case by (simp add: world_after_def)
next
  case (Suc k)
  from Suc.prems(1) have "isl (outcome fn 0 s)" by blast
  then obtain e where e: "fst (fn s) = Inl e"
    by (auto simp: outcome_def world_after_def isl_def)
  have rest: "\<forall>i<k. isl (outcome fn i (snd (fn s)))"
    using Suc.prems(1) by (auto simp: outcome_Suc [symmetric])
  have m: "m > 0" "int k \<le> m - 1" using Suc.prems(2) by auto
  have "attempt fn d m (s, log) = attempt fn d (m - 1) (snd (fn s), log @ [Invoke, CyWait d])"
    using e m(1) by (cases "fn s") (simp add: attempt.simps)
  also have "\<dots> = attempt fn d (m - 1 - int k)
      (world_after fn k (snd (fn s)), (log @ [Invoke, CyWait d]) @ concat (replicate k [Invoke, CyWait d]))"
    by (rule Suc.IH [OF rest m(2)])
  finally show ?case
    by (simp add: world_after_Suc algebra_simps)
qed

lemma attempt_last:
  "attempt fn d m (s, log) =
     (case fst (fn s) of
        Inr v \<Rightarrow> (Inr v, snd (fn s), log @ [Invoke])
      | Inl e \<Rightarrow> if m > 0 then attempt fn d (m - 1) (snd (fn s), log @ [Invoke, CyWait d])
                 else (Inl e, snd (fn s), log @ [Invoke]))"
  by (cases "fn s") (auto simp: attempt.simps split: sum.splits)

text \<open>
  Claim C3. \<^verbatim>\<open>retry\<close> is total (\<open>attempt\<close> terminates: \<open>retriesLeft\<close> decreases) and, for
  a bound \<open>m \<ge> 0\<close> on the retries: when the action fails on its first \<open>k \<le> m\<close> calls and
  succeeds on the next, \<^verbatim>\<open>retry\<close> returns that result after \<open>k + 1\<close> calls and exactly
  \<open>k\<close> waits of the given delay, one after each failure; when the action fails on all of
  its first \<open>m + 1\<close> calls, \<^verbatim>\<open>retry\<close> makes exactly these \<open>m + 1\<close> calls and \<open>m\<close> waits
  and then fails with the error of the last call, unchanged. With \<open>m = 3\<close> and a delay of
  100: an action that fails twice and then succeeds gives its result after two waits of 100,
  and an action that keeps failing is called four times.
\<close>

theorem retry_bounded:
  assumes "0 \<le> m"
  shows "(k \<le> nat m \<and> (\<forall>i<k. isl (outcome fn i s)) \<and> outcome fn k s = Inr v \<longrightarrow>
            retry fn (Some m) (Some d) s = (Inr v, world_after fn (Suc k) s, retry_log k d))
       \<and> ((\<forall>i \<le> nat m. isl (outcome fn i s)) \<longrightarrow>
            retry fn (Some m) (Some d) s =
              (outcome fn (nat m) s, world_after fn (Suc (nat m)) s, retry_log (nat m) d))
       \<and> retry (flaky 2 v) (Some 3) (Some 100) 0 =
            (Inr v, 3, [Invoke, CyWait 100, Invoke, CyWait 100, Invoke])
       \<and> retry (flaky 4 v) (Some 3) (Some 100) 0 =
            (Inl (Error ''failure 4''), 4,
             [Invoke, CyWait 100, Invoke, CyWait 100, Invoke, CyWait 100, Invoke])"
proof -
  have a: "retry fn (Some m) (Some d) s = (Inr v, world_after fn (Suc k) s, retry_log k d)"
    if "k \<le> nat m" "\<forall>i<k. isl (outcome fn i s)" "outcome fn k s = Inr v"
  proof -
    have "int k \<le> m" using that(1) assms by linarith
    from attempt_failures [OF that(2) this, of d "[]"]
    have "attempt fn d m (s, []) =
        attempt fn d (m - int k) (world_after fn k s, concat (replicate k [Invoke, CyWait d]))"
      by simp
    also have "\<dots> = (Inr v, snd (fn (world_after fn k s)), concat (replicate k [Invoke, CyWait d]) @ [Invoke])"
      using that(3) by (subst attempt_last) (simp add: outcome_def)
    finally show ?thesis
      by (simp add: retry_def retry_log_def world_after_def)
  qed
  have b: "retry fn (Some m) (Some d) s =
        (outcome fn (nat m) s, world_after fn (Suc (nat m)) s, retry_log (nat m) d)"
    if "\<forall>i \<le> nat m. isl (outcome fn i s)"
  proof -
    have f: "\<forall>i<nat m. isl (outcome fn i s)" using that by auto
    have "int (nat m) \<le> m" using assms by simp
    from attempt_failures [OF f this, of d "[]"] assms
    have "attempt fn d m (s, []) =
        attempt fn d 0 (world_after fn (nat m) s, concat (replicate (nat m) [Invoke, CyWait d]))"
      by simp
    moreover from that have "isl (outcome fn (nat m) s)" by blast
    then obtain e where "fst (fn (world_after fn (nat m) s)) = Inl e"
      by (auto simp: outcome_def isl_def)
    ultimately show ?thesis
      by (simp add: retry_def retry_log_def attempt_last [of fn d 0] outcome_def world_after_step)
  qed
  have c: "retry (flaky 2 v) (Some 3) (Some 100) 0 =
            (Inr v, 3, [Invoke, CyWait 100, Invoke, CyWait 100, Invoke])"
    by (simp add: retry_def flaky_def attempt.simps)
  have e: "retry (flaky 4 v) (Some 3) (Some 100) 0 =
            (Inl (Error ''failure 4''), 4,
             [Invoke, CyWait 100, Invoke, CyWait 100, Invoke, CyWait 100, Invoke])"
    by (simp add: retry_def flaky_def attempt.simps)
  from a b c e show ?thesis by blast
qed

theorem retry_bounded_witness:
  "(0::int) \<le> 3 \<and> (2::nat) \<le> nat 3
   \<and> isl (outcome (flaky 2 (Str ''done'')) 0 0) \<and> isl (outcome (flaky 2 (Str ''done'')) 1 0)
   \<and> outcome (flaky 2 (Str ''done'')) 2 0 = Inr (Str ''done'')
   \<and> retry (flaky 2 (Str ''done'')) (Some 3) (Some 100) 0 =
        (Inr (Str ''done''), world_after (flaky 2 (Str ''done'')) 3 0, retry_log 2 100)
   \<and> retry_log 2 100 = [Invoke, CyWait 100, Invoke, CyWait 100, Invoke]
   \<and> world_after (flaky 2 (Str ''done'')) 3 0 = 3"
proof -
  let ?f = "flaky 2 (Str ''done'')"
  have m: "(0::int) \<le> 3" by simp
  have k: "(2::nat) \<le> nat 3" by simp
  have f0: "isl (outcome ?f 0 0)" by code_simp
  have f1: "isl (outcome ?f 1 0)" by code_simp
  have s2: "outcome ?f 2 0 = Inr (Str ''done'')" by code_simp
  have fs: "\<forall>i<2. isl (outcome ?f i 0)"
    using f0 f1 by (auto simp: less_Suc_eq numeral_2_eq_2)
  from retry_bounded [OF m, of 2 ?f 0 "Str ''done''" 100] k fs s2
  have r: "retry ?f (Some 3) (Some 100) 0 = (Inr (Str ''done''), world_after ?f 3 0, retry_log 2 100)"
    by (simp add: numeral_3_eq_3 numeral_2_eq_2)
  have l: "retry_log 2 100 = [Invoke, CyWait 100, Invoke, CyWait 100, Invoke]" by code_simp
  have w: "world_after ?f 3 0 = 3" by code_simp
  from m k f0 f1 s2 r l w show ?thesis by blast
qed

subsection \<open>Retry of a request\<close>

declare makeRequest.simps [simp del]

lemma apiRequest_requests:
  "apiRequest pr rq opts (s, log) = (r, s', log') \<Longrightarrow> requests log' = Suc (requests log)"
  by (auto simp: apiRequest_def requests_def split: prod.splits sum.splits)

lemma apiRequest_answers:
  assumes "always_answers rq" and "apiRequest pr rq opts (s, log) = (r, s', log')"
  shows "\<exists>resp. r = Inr resp"
proof -
  from assms(1) have "\<not> isl (fst (rq (Obj (mergedOptions pr opts)) s))"
    by (simp add: always_answers_def)
  then obtain resp where "fst (rq (Obj (mergedOptions pr opts)) s) = Inr resp"
    by (cases "fst (rq (Obj (mergedOptions pr opts)) s)") auto
  with assms(2) show ?thesis
    by (cases "rq (Obj (mergedOptions pr opts)) s") (auto simp: apiRequest_def)
qed

lemma makeRequest_step:
  "apiRequest pr rq opts (s, log) = (r1, s1, log1) \<Longrightarrow>
   makeRequest pr rq opts m d (a, s, log) =
     (case r1 of
        Inl e \<Rightarrow> (Inl e, a + 1, s1, log1)
      | Inr resp \<Rightarrow>
          if status resp \<ge> 500 \<and> a + 1 < m
          then makeRequest pr rq opts m d (a + 1, s1, log1 @ [CyWait d])
          else (Inr resp, a + 1, s1, log1))"
  by (cases r1) (simp_all add: makeRequest.simps)

lemma makeRequest_attempts:
  "makeRequest pr rq opts m d (a, s, log) = (r, a', s', log') \<Longrightarrow>
   a + 1 \<le> a' \<and> a' \<le> max (a + 1) m \<and> int (requests log') = int (requests log) + (a' - a)"
proof (induction pr rq opts m d "(a, s, log)" arbitrary: a s log rule: makeRequest.induct)
  case (1 pr rq opts m d a s log)
  obtain r1 s1 log1 where api: "apiRequest pr rq opts (s, log) = (r1, s1, log1)"
    by (cases "apiRequest pr rq opts (s, log)") auto
  note n = apiRequest_requests [OF api]
  note step = makeRequest_step [OF api, of m d a]
  show ?case
  proof (cases r1)
    case (Inl e)
    with "1.prems" step have "a' = a + 1" "log' = log1" by simp_all
    with n show ?thesis by simp
  next
    case (Inr resp)
    show ?thesis
    proof (cases "status resp \<ge> 500 \<and> a + 1 < m")
      case True
      with "1.prems" step Inr
      have rec: "makeRequest pr rq opts m d (a + 1, s1, log1 @ [CyWait d]) = (r, a', s', log')"
        by simp
      have "requests (log1 @ [CyWait d]) = requests log1"
        by (simp add: requests_def)
      with "1.hyps" [OF api [symmetric] Inr refl True rec] n True show ?thesis
        by simp
    next
      case False
      with "1.prems" step Inr have "a' = a + 1" "log' = log1" by simp_all
      with n show ?thesis by simp
    qed
  qed
qed

lemma makeRequest_answer:
  "always_answers rq \<Longrightarrow> makeRequest pr rq opts m d (a, s, log) = (r, a', s', log') \<Longrightarrow>
   \<exists>resp. r = Inr resp \<and> (status resp < 500 \<or> m \<le> a')"
proof (induction pr rq opts m d "(a, s, log)" arbitrary: a s log rule: makeRequest.induct)
  case (1 pr rq opts m d a s log)
  obtain r1 s1 log1 where api: "apiRequest pr rq opts (s, log) = (r1, s1, log1)"
    by (cases "apiRequest pr rq opts (s, log)") auto
  from apiRequest_answers [OF "1.prems"(1) api] obtain resp where Inr: "r1 = Inr resp"
    by blast
  note step = makeRequest_step [OF api, of m d a]
  show ?case
  proof (cases "status resp \<ge> 500 \<and> a + 1 < m")
    case True
    with "1.prems" step Inr
    have rec: "makeRequest pr rq opts m d (a + 1, s1, log1 @ [CyWait d]) = (r, a', s', log')"
      by simp
    from "1.hyps" [OF api [symmetric] Inr refl True "1.prems"(1) rec] show ?thesis .
  next
    case False
    with "1.prems" step Inr have "r = Inr resp" "a' = a + 1" by simp_all
    with False show ?thesis by auto
  qed
qed

lemma apiRequest_outcome:
  "apiRequest pr rq opts (s, log) = (r, s', log') \<Longrightarrow>
   r = outcome (rq (Obj (mergedOptions pr opts))) 0 s \<and> s' = world_after (rq (Obj (mergedOptions pr opts))) 1 s"
  by (cases "rq (Obj (mergedOptions pr opts)) s"; cases "fst (rq (Obj (mergedOptions pr opts)) s)")
     (auto simp: apiRequest_def outcome_def world_after_def)

lemma makeRequest_last:
  "makeRequest pr rq opts m d (a, s, log) = (r, a', s', log') \<Longrightarrow>
   r = outcome (rq (Obj (mergedOptions pr opts))) (nat (a' - a) - 1) s
   \<and> s' = world_after (rq (Obj (mergedOptions pr opts))) (nat (a' - a)) s
   \<and> (\<forall>i < nat (a' - a) - 1.
         \<exists>resp. outcome (rq (Obj (mergedOptions pr opts))) i s = Inr resp \<and> 500 \<le> status resp)
   \<and> (\<forall>resp. r = Inr resp \<and> 500 \<le> status resp \<longrightarrow> m \<le> a')"
proof (induction pr rq opts m d "(a, s, log)" arbitrary: a s log rule: makeRequest.induct)
  case (1 pr rq opts m d a s log)
  let ?rq = "rq (Obj (mergedOptions pr opts))"
  obtain r1 s1 log1 where api: "apiRequest pr rq opts (s, log) = (r1, s1, log1)"
    by (cases "apiRequest pr rq opts (s, log)") auto
  note o = apiRequest_outcome [OF api]
  note step = makeRequest_step [OF api, of m d a]
  show ?case
  proof (cases r1)
    case (Inl e)
    with "1.prems" step have "r = Inl e" "a' = a + 1" "s' = s1" by simp_all
    moreover from o Inl have "outcome ?rq 0 s = Inl e" "s1 = world_after ?rq 1 s" by simp_all
    ultimately show ?thesis by simp
  next
    case (Inr resp)
    show ?thesis
    proof (cases "status resp \<ge> 500 \<and> a + 1 < m")
      case True
      with "1.prems" step Inr
      have rec: "makeRequest pr rq opts m d (a + 1, s1, log1 @ [CyWait d]) = (r, a', s', log')"
        by simp
      note ih = "1.hyps" [OF api [symmetric] Inr refl True rec]
      from makeRequest_attempts [OF rec] have ge: "a + 2 \<le> a'" by simp
      define k where "k = nat (a' - a - 2)"
      from ge have k: "nat (a' - (a + 1)) = Suc k" "nat (a' - a) = Suc (Suc k)"
        unfolding k_def by linarith+
      have s1: "s1 = snd (?rq s)"
        using o by (simp add: world_after_def)
      have first: "outcome ?rq 0 s = Inr resp"
        using o Inr by simp
      have early: "\<exists>resp. outcome ?rq i s = Inr resp \<and> 500 \<le> status resp" if "i < Suc k" for i
      proof (cases i)
        case 0
        with first True show ?thesis by simp
      next
        case (Suc j)
        with that have "j < k" by simp
        with ih k have "\<exists>resp. outcome ?rq j s1 = Inr resp \<and> 500 \<le> status resp" by simp
        then show ?thesis by (simp add: Suc outcome_Suc s1)
      qed
      from ih k have "r = outcome ?rq (Suc k) s" "s' = world_after ?rq (Suc (Suc k)) s"
          "\<forall>resp. r = Inr resp \<and> 500 \<le> status resp \<longrightarrow> m \<le> a'"
        by (simp_all add: outcome_Suc world_after_Suc s1)
      with early show ?thesis
        by (simp add: k)
    next
      case False
      with "1.prems" step Inr have "r = Inr resp" "a' = a + 1" "s' = s1" by simp_all
      moreover from o Inr have "outcome ?rq 0 s = Inr resp" "s1 = world_after ?rq 1 s" by simp_all
      ultimately show ?thesis using False by auto
    qed
  qed
qed

text \<open>
  Claim C10, as the code has it. \<^verbatim>\<open>retryRequest\<close> always sends a first request, and sends
  at most \<open>max 1 maxRetries\<close> requests in all. What it hands to the caller is the outcome
  of the last request: every earlier request was answered with a status of 500 or more, and
  a response with such a status is returned, not raised, once \<open>maxRetries\<close> requests have
  been made; a response with a status below 500 is returned at once. It fails only when
  \<^verbatim>\<open>cy.request\<close> itself fails.
\<close>

theorem retryRequest_attempts:
  assumes "retryRequest pr rq opts (Some m) (Some d) s = (r, a, s', log)"
  shows "1 \<le> a \<and> a \<le> max 1 m \<and> int (requests log) = a
     \<and> r = outcome (rq (Obj (mergedOptions pr opts))) (nat a - 1) s
     \<and> s' = world_after (rq (Obj (mergedOptions pr opts))) (nat a) s
     \<and> (\<forall>i < nat a - 1.
           \<exists>resp. outcome (rq (Obj (mergedOptions pr opts))) i s = Inr resp \<and> 500 \<le> status resp)
     \<and> (\<forall>resp. r = Inr resp \<and> 500 \<le> status resp \<longrightarrow> m \<le> a)
     \<and> (always_answers rq \<longrightarrow> (\<exists>resp. r = Inr resp))"
proof -
  from assms have mk: "makeRequest pr rq opts m d (0, s, []) = (r, a, s', log)"
    by (simp add: retryRequest_def)
  from makeRequest_attempts [OF mk] have 1: "1 \<le> a \<and> a \<le> max 1 m \<and> int (requests log) = a"
    by (simp add: requests_def)
  from makeRequest_last [OF mk] have 2:
    "r = outcome (rq (Obj (mergedOptions pr opts))) (nat a - 1) s
     \<and> s' = world_after (rq (Obj (mergedOptions pr opts))) (nat a) s
     \<and> (\<forall>i < nat a - 1.
           \<exists>resp. outcome (rq (Obj (mergedOptions pr opts))) i s = Inr resp \<and> 500 \<le> status resp)
     \<and> (\<forall>resp. r = Inr resp \<and> 500 \<le> status resp \<longrightarrow> m \<le> a)"
    by simp
  have 3: "\<exists>resp. r = Inr resp" if "always_answers rq"
    using makeRequest_answer [OF that mk] by blast
  from 1 2 3 show ?thesis by blast
qed

theorem retryRequest_attempts_witness:
  "retryRequest object_prototype (server_recovers 2) [(''url'', Str ''/users'')] (Some 3) (Some 50) 0 =
     (Inr \<lparr>status = 200, body = Obj [(''id'', Num 1)]\<rparr>, 3, 3,
      snd (snd (snd (retryRequest object_prototype (server_recovers 2) [(''url'', Str ''/users'')] (Some 3) (Some 50) 0))))
   \<and> requests (snd (snd (snd (retryRequest object_prototype (server_recovers 2) [(''url'', Str ''/users'')] (Some 3) (Some 50) 0)))) = 3
   \<and> retryRequest object_prototype server_down [(''url'', Str ''/users'')] (Some 3) (Some 50) 0 =
     (Inr \<lparr>status = 503, body = Str ''Service Unavailable''\<rparr>, 3, 3,
      snd (snd (snd (retryRequest object_prototype server_down [(''url'', Str ''/users'')] (Some 3) (Some 50) 0))))
   \<and> requests (snd (snd (snd (retryRequest object_prototype server_down [(''url'', Str ''/users'')] (Some 3) (Some 50) 0)))) = 3
   \<and> always_answers server_down"
proof -
  let ?o = "[(''url'', Str ''/users'')]"
  let ?log = "snd (snd (snd (retryRequest object_prototype (server_recovers 2) ?o (Some 3) (Some 50) 0)))"
  let ?log2 = "snd (snd (snd (retryRequest object_prototype server_down ?o (Some 3) (Some 50) 0)))"
  have e: "retryRequest object_prototype (server_recovers 2) ?o (Some 3) (Some 50) 0 =
     (Inr \<lparr>status = 200, body = Obj [(''id'', Num 1)]\<rparr>, 3, 3, ?log)"
    by code_simp
  have e2: "retryRequest object_prototype server_down ?o (Some 3) (Some 50) 0 =
     (Inr \<lparr>status = 503, body = Str ''Service Unavailable''\<rparr>, 3, 3, ?log2)"
    by code_simp
  have aa: "always_answers server_down"
    by (simp add: always_answers_def server_down_def)
  from retryRequest_attempts [OF e] have 1: "int (requests ?log) = 3" by blast
  from retryRequest_attempts [OF e2] aa
  have 2: "int (requests ?log2) = 3
      \<and> (\<exists>resp. Inr \<lparr>status = 503, body = Str ''Service Unavailable''\<rparr> = Inr resp)"
    by blast
  from 1 2 aa e e2 show ?thesis by simp
qed

text \<open>
  The bound of the claim as worded, at most \<open>maxRetries\<close> requests, fails for
  \<open>maxRetries = 0\<close>: one request is sent.
\<close>

theorem retryRequest_zero_counterexample:
  "fst (snd (retryRequest object_prototype server_down [(''url'', Str ''/users'')] (Some 0) (Some 50) 0)) = 1
   \<and> requests (snd (snd (snd (retryRequest object_prototype server_down [(''url'', Str ''/users'')] (Some 0) (Some 50) 0)))) = 1
   \<and> \<not> ((1::int) \<le> 0)"
  by code_simp

subsection \<open>Validation of a response\<close>






subsection \<open>The safe click\<close>

text \<open>
  Claim C8, as the code has it. \<^verbatim>\<open>safeClick\<close> probes with \<^verbatim>\<open>$body.find(selector).length > 0\<close>,
  a CSS query of its own. When nothing matches it raises a \<^verbatim>\<open>TestError\<close> of type
  \<^verbatim>\<open>ELEMENT_NOT_FOUND\<close> at once, having issued no click and no retry; when something matches
  it issues exactly one click, with the \<^verbatim>\<open>timeout\<close> (default 10000) on the query and the
  \<^verbatim>\<open>force\<close> flag (default false) on the click; an error of the probe itself is passed on.
  On a selector without the prefixes \<^verbatim>\<open>xpath=\<close> and \<^verbatim>\<open>text=\<close> the probe agrees with the
  existence check of the Resolver.
\<close>

theorem safeClick_probe:
  "(find_length pg sel = Inr 0 \<longrightarrow>
      safeClick pg sel opts log =
        (Inl (TestError (''Element not found: '' @ sel) ELEMENT_NOT_FOUND
                (Obj [(''selector'', Str sel)])),
         log @ [CyGet ''body'' None]))
   \<and> (find_length pg sel = Inr n \<and> 0 < n \<longrightarrow>
      safeClick pg sel opts log =
        (Inr (),
         log @ [CyGet ''body'' None,
                CyGet sel (Some (case timeout opts of None \<Rightarrow> 10000 | Some t \<Rightarrow> t)),
                CyClick (case force opts of None \<Rightarrow> False | Some f \<Rightarrow> f)]))
   \<and> (find_length pg sel = Inl e \<longrightarrow>
      safeClick pg sel opts log = (Inl e, log @ [CyGet ''body'' None]))
   \<and> (\<not> startsWith sel ''xpath='' \<and> \<not> startsWith sel ''text='' \<longrightarrow>
      fst (elementExists_then pg (Str sel) log) =
        (case find_length pg sel of Inl e \<Rightarrow> Inl e | Inr n \<Rightarrow> Inr (0 < n)))"
  by (auto simp: safeClick_def elementExists_then_def Let_def split: sum.splits)

theorem safeClick_probe_witness:
  "find_length order_page ''#submit'' = Inr 1 \<and> (0::nat) < 1
   \<and> safeClick order_page ''#submit'' \<lparr>timeout = Some 5000, force = Some True\<rparr> [] =
       (Inr (), [CyGet ''body'' None, CyGet ''#submit'' (Some 5000), CyClick True])
   \<and> find_length order_page ''#cancel'' = Inr 0
   \<and> safeClick order_page ''#cancel'' \<lparr>timeout = None, force = None\<rparr> [] =
       (Inl (TestError ''Element not found: #cancel'' ELEMENT_NOT_FOUND
               (Obj [(''selector'', Str ''#cancel'')])),
        [CyGet ''body'' None])
   \<and> \<not> startsWith ''#submit'' ''xpath='' \<and> \<not> startsWith ''#submit'' ''text=''
   \<and> fst (elementExists_then order_page (Str ''#submit'') []) = Inr True"
proof -
  have f1: "find_length order_page ''#submit'' = Inr 1 \<and> (0::nat) < 1"
    by code_simp
  have f0: "find_length order_page ''#cancel'' = Inr 0"
    by code_simp
  have c: "\<not> startsWith ''#submit'' ''xpath='' \<and> \<not> startsWith ''#submit'' ''text=''"
    by code_simp
  from safeClick_probe [where pg = order_page and sel = "''#submit''" and n = 1
      and opts = "\<lparr>timeout = Some 5000, force = Some True\<rparr>" and log = "[]"] f1
  have 1: "safeClick order_page ''#submit'' \<lparr>timeout = Some 5000, force = Some True\<rparr> [] =
       (Inr (), [CyGet ''body'' None, CyGet ''#submit'' (Some 5000), CyClick True])"
    by simp
  from safeClick_probe [where pg = order_page and sel = "''#cancel''"
      and opts = "\<lparr>timeout = None, force = None\<rparr>" and log = "[]"] f0
  have 2: "safeClick order_page ''#cancel'' \<lparr>timeout = None, force = None\<rparr> [] =
       (Inl (TestError ''Element not found: #cancel'' ELEMENT_NOT_FOUND
               (Obj [(''selector'', Str ''#cancel'')])),
        [CyGet ''body'' None])"
    by simp
  from safeClick_probe [where pg = order_page and sel = "''#submit''" and log = "[]"] c f1
  have 3: "fst (elementExists_then order_page (Str ''#submit'') []) = Inr True"
    by simp
  from f1 f0 c 1 2 3 show ?thesis by blast
qed

text \<open>
  The claim as worded has \<^verbatim>\<open>safeClick\<close> probe through the existence check of the Resolver.
  For the locator \<^verbatim>\<open>text=Help\<close> of the home page that check says that the element exists
  (the body text contains \<^verbatim>\<open>Help\<close>), yet \<^verbatim>\<open>safeClick\<close> on this selector issues no click:
  its CSS probe does not know the prefix.
\<close>

theorem safeClick_prefixed_selector_counterexample:
  "elementExists object_prototype example_env order_page ''home'' ''helpLink'' (initial_registry, [])
     = (Inr True,
        \<lparr>locatorCache = [(''home'', flat_document)], reads = [''cypress/locators/home.yaml'']\<rparr>,
        [CyGet ''body'' None, CyDocument])
   \<and> getLocator object_prototype example_env ''home'' ''helpLink'' initial_registry
     = (Inr (Str ''text=Help''),
        \<lparr>locatorCache = [(''home'', flat_document)], reads = [''cypress/locators/home.yaml'']\<rparr>)
   \<and> safeClick order_page ''text=Help'' \<lparr>timeout = None, force = None\<rparr> []
     = (Inl (Error ''Syntax error, unrecognized expression: text=Help''), [CyGet ''body'' None])"
  by code_simp

end
